theory Spec2Isabelle
  imports Complex_Main
begin

section \<open>Values of the relay server\<close>

text \<open>
  Everything the handlers of \<^verbatim>\<open>server.js\<close> touch is a value that came out of
  \<^verbatim>\<open>JSON.parse\<close> (the request body through \<^verbatim>\<open>express.json\<close>, the provider's
  replies) or \<^verbatim>\<open>undefined\<close>, the answer of a missing property. A number is a double:
  only its truthiness and its conversion to a string are ever used, never arithmetic.
  An object is the list of its own properties in insertion order; a lookup takes the
  first binding of a key (a JavaScript object has one binding per key).
\<close>

datatype jsnum = NaN | PosInfinity | NegInfinity | Finite rat

datatype js =
    JUndefined
  | JNull
  | JBool bool
  | JNum jsnum
  | JStr string
  | JArr "js list"
  | JObj "(string \<times> js) list"

text \<open>
  A thrown value. Every throw the handlers can see is an \<^verbatim>\<open>Error\<close> object of some
  class with a \<^verbatim>\<open>message\<close>; the \<^verbatim>\<open>catch\<close> blocks read nothing else.
\<close>

datatype exn =
    Error string
  | TypeError string
  | SyntaxError string
  | URIError string

fun message :: "exn \<Rightarrow> string" where
  "message (Error m) = m"
| "message (TypeError m) = m"
| "message (SyntaxError m) = m"
| "message (URIError m) = m"

text \<open>
  The built-ins of the JavaScript runtime that the handlers call and that interpret the
  characters of a string or the digits of a number. They are parameters of the model.
\<close>

record runtime =
  json_parse :: "string \<Rightarrow> exn + js"
  number_to_string :: "jsnum \<Rightarrow> string"
  encodeURIComponent :: "string \<Rightarrow> exn + string"

subsection \<open>Truthiness, property reads, string conversion\<close>

text \<open>\<^verbatim>\<open>!x\<close> is \<open>\<not> truthy x\<close>: falsy are undefined, null, false, 0, NaN and the empty string.\<close>

fun truthy :: "js \<Rightarrow> bool" where
  "truthy JUndefined = False"
| "truthy JNull = False"
| "truthy (JBool b) = b"
| "truthy (JNum n) = (n \<noteq> NaN \<and> n \<noteq> Finite 0)"
| "truthy (JStr s) = (s \<noteq> [])"
| "truthy (JArr xs) = True"
| "truthy (JObj fs) = True"

fun nullish :: "js \<Rightarrow> bool" where
  "nullish JUndefined = True"
| "nullish JNull = True"
| "nullish v = False"

text \<open>
  Reading a named property off a value that is neither undefined nor null. The handlers
  read only the names \<^verbatim>\<open>prompt file asset text base64Data mimeType groundingMetadata
  webSearchQueries generatedImages image imageBytes candidates content parts inlineData data\<close>:
  none is an array index, \<^verbatim>\<open>length\<close> or a name of a built-in prototype, so only an
  object's own property can answer.
\<close>

fun get_prop :: "js \<Rightarrow> string \<Rightarrow> js" where
  "get_prop (JObj fs) k = (case map_of fs k of None \<Rightarrow> JUndefined | Some v \<Rightarrow> v)"
| "get_prop v k = JUndefined"

text \<open>\<^verbatim>\<open>x[0]\<close> on a value that is neither undefined nor null.\<close>

fun get_index0 :: "js \<Rightarrow> js" where
  "get_index0 (JArr xs) = (case xs of [] \<Rightarrow> JUndefined | x # _ \<Rightarrow> x)"
| "get_index0 (JStr s) = (case s of [] \<Rightarrow> JUndefined | c # _ \<Rightarrow> JStr [c])"
| "get_index0 (JObj fs) = (case map_of fs ''0'' of None \<Rightarrow> JUndefined | Some v \<Rightarrow> v)"
| "get_index0 v = JUndefined"

text \<open>\<^verbatim>\<open>x.k\<close> and \<^verbatim>\<open>x[0]\<close>: a TypeError on undefined and null.\<close>

definition cannot_read :: "js \<Rightarrow> string \<Rightarrow> exn" where
  "cannot_read x k =
     TypeError (''Cannot read properties of '' @ (if x = JNull then ''null'' else ''undefined'')
                @ '' (reading '' @ [CHR 0x27] @ k @ [CHR 0x27] @ '')'')"

definition read_prop :: "js \<Rightarrow> string \<Rightarrow> exn + js" where
  "read_prop x k = (if nullish x then Inl (cannot_read x k) else Inr (get_prop x k))"

definition read_index0 :: "js \<Rightarrow> exn + js" where
  "read_index0 x = (if nullish x then Inl (cannot_read x ''0'') else Inr (get_index0 x))"

text \<open>\<^verbatim>\<open>const { k } = req.body\<close>: a TypeError when the body is undefined or null.\<close>

definition destructure :: "js \<Rightarrow> string \<Rightarrow> exn + js" where
  "destructure body k =
     (if nullish body then
        Inl (TypeError (''Cannot destructure property '' @ [CHR 0x27] @ k @ [CHR 0x27]
               @ '' of '' @ [CHR 0x27] @ ''req.body'' @ [CHR 0x27] @ '' as it is ''
               @ (if body = JNull then ''null'' else ''undefined'') @ ''.''))
      else Inr (get_prop body k))"

text \<open>\<^verbatim>\<open>x?.k\<close> and \<^verbatim>\<open>x?.[0]\<close>: undefined on undefined and null.\<close>

definition opt_prop :: "js \<Rightarrow> string \<Rightarrow> js" where
  "opt_prop x k = (if nullish x then JUndefined else get_prop x k)"

definition opt_index0 :: "js \<Rightarrow> js" where
  "opt_index0 x = (if nullish x then JUndefined else get_index0 x)"

text \<open>
  The conversion to a string that a template literal \<^verbatim>\<open>`${x}`\<close> and the argument of
  \<^verbatim>\<open>JSON.parse\<close> and \<^verbatim>\<open>encodeURIComponent\<close> go through. A parsed object inherits
  \<^verbatim>\<open>Object.prototype.toString\<close> unless it has an own property \<^verbatim>\<open>toString\<close>; a parsed
  value is never callable, so with such a property the conversion finds no method that
  returns a primitive and throws. An array joins the conversions of its elements with
  commas, undefined and null elements as the empty string.
\<close>

fun to_string :: "runtime \<Rightarrow> js \<Rightarrow> exn + string"
  and join :: "runtime \<Rightarrow> js list \<Rightarrow> exn + string" where
  "to_string rt JUndefined = Inr ''undefined''"
| "to_string rt JNull = Inr ''null''"
| "to_string rt (JBool b) = Inr (if b then ''true'' else ''false'')"
| "to_string rt (JNum n) = Inr (number_to_string rt n)"
| "to_string rt (JStr s) = Inr s"
| "to_string rt (JArr xs) = join rt xs"
| "to_string rt (JObj fs) =
     (if map_of fs ''toString'' \<noteq> None
      then Inl (TypeError ''Cannot convert object to primitive value'')
      else Inr ''[object Object]'')"
| "join rt [] = Inr ''''"
| "join rt (x # xs) =
     (case (if nullish x then Inr '''' else to_string rt x) of
        Inl e \<Rightarrow> Inl e
      | Inr s \<Rightarrow>
          (if xs = [] then Inr s
           else (case join rt xs of Inl e \<Rightarrow> Inl e | Inr t \<Rightarrow> Inr (s @ '','' @ t))))"

text \<open>\<^verbatim>\<open>Array.prototype.map\<close> with a callback that may throw: the first throw ends the loop.\<close>

fun map_throw :: "('a \<Rightarrow> exn + 'b) \<Rightarrow> 'a list \<Rightarrow> exn + 'b list" where
  "map_throw f [] = Inr []"
| "map_throw f (x # xs) =
     (case f x of
        Inl e \<Rightarrow> Inl e
      | Inr y \<Rightarrow> (case map_throw f xs of Inl e \<Rightarrow> Inl e | Inr ys \<Rightarrow> Inr (y # ys)))"

section \<open>The provider and what a handler does\<close>

text \<open>
  The provider is reached in two ways: \<^verbatim>\<open>ai.models.generateContent\<close> of the client
  library, whose answer offers \<^verbatim>\<open>candidates\<close> and the getter \<^verbatim>\<open>text\<close> (a string or
  undefined), and \<^verbatim>\<open>fetch\<close>, whose answer offers \<^verbatim>\<open>ok\<close> and the body, read by
  \<^verbatim>\<open>text()\<close> or by \<^verbatim>\<open>json()\<close>. Each call may reject with an error. A handler makes
  at most one call, so the provider is a function of the request. Both handlers that
  use \<^verbatim>\<open>fetch\<close> send \<^verbatim>\<open>{method: 'POST', headers: {'Content-Type': 'application/json'},
  body: JSON.stringify(payload)}\<close>; the call is recorded as its URL and its payload, which
  \<^verbatim>\<open>JSON.stringify\<close> turns into the body without ever throwing on these values.
\<close>

record genai_response =
  candidates :: js
  response_text :: js

record fetch_response =
  ok :: bool
  body_text :: "exn + string"

record provider =
  generateContent :: "js \<Rightarrow> exn + genai_response"
  fetch :: "string \<Rightarrow> js \<Rightarrow> exn + fetch_response"

definition response_json :: "runtime \<Rightarrow> fetch_response \<Rightarrow> exn + js" where
  "response_json rt response =
     (case body_text response of Inl e \<Rightarrow> Inl e | Inr t \<Rightarrow> json_parse rt t)"

datatype call = GenerateContent js | Fetch string js

text \<open>
  What one request leaves behind: the outbound calls it made, in order, and the reply
  \<^verbatim>\<open>res.status(status).json(json)\<close>; \<^verbatim>\<open>res.json\<close> alone replies with status 200.
  The \<^verbatim>\<open>console\<close> lines print and return; only the evaluation of their arguments
  is kept.
\<close>

record outcome =
  calls :: "call list"
  status :: nat
  json :: js

definition reply :: "call list \<Rightarrow> nat \<Rightarrow> js \<Rightarrow> outcome" where
  "reply cs st v = \<lparr>calls = cs, status = st, json = v\<rparr>"

text \<open>The \<^verbatim>\<open>catch\<close> block of every handler, with the handler's own fixed text.\<close>

definition caught :: "call list \<Rightarrow> string \<Rightarrow> exn \<Rightarrow> outcome" where
  "caught cs fixed e =
     reply cs 500 (JObj [(''error'', JStr fixed), (''details'', JStr (message e))])"

section \<open>POST /api/chat\<close>

text \<open>
  The \<^verbatim>\<open>parts\<close> array. With a truthy \<^verbatim>\<open>file\<close> the handler first prints
  \<^verbatim>\<open>`Processing file type: ${file.mimeType}`\<close>, whose conversion may throw, and pushes
  the inline-data part; the text part is pushed in every case.
\<close>

definition inline_part :: "js \<Rightarrow> js" where
  "inline_part file =
     JObj [(''inlineData'',
            JObj [(''data'', get_prop file ''base64Data''),
                  (''mimeType'', get_prop file ''mimeType'')])]"

definition text_part :: "js \<Rightarrow> js" where
  "text_part prompt = JObj [(''text'', prompt)]"

definition chat_parts :: "runtime \<Rightarrow> js \<Rightarrow> js \<Rightarrow> exn + js list" where
  "chat_parts rt prompt file =
     (if truthy file then
        (case to_string rt (get_prop file ''mimeType'') of
           Inl e \<Rightarrow> Inl e
         | Inr logged \<Rightarrow> Inr [inline_part file, text_part prompt])
      else Inr [text_part prompt])"

definition google_search_tools :: js where
  "google_search_tools = JArr [JObj [(''googleSearch'', JObj [])]]"

definition chat_request :: "js list \<Rightarrow> js" where
  "chat_request parts =
     JObj [(''model'', JStr ''gemini-2.5-flash''),
           (''contents'', JArr [JObj [(''role'', JStr ''user''), (''parts'', JArr parts)]]),
           (''config'', JObj [(''tools'', google_search_tools)])]"

text \<open>The callback of \<^verbatim>\<open>webSearchQueries?.map\<close>.\<close>

definition citation :: "runtime \<Rightarrow> js \<Rightarrow> exn + js" where
  "citation rt query =
     (case to_string rt query of
        Inl e \<Rightarrow> Inl e
      | Inr s \<Rightarrow>
          (case encodeURIComponent rt s of
             Inl e \<Rightarrow> Inl e
           | Inr enc \<Rightarrow>
               Inr (JObj [(''uri'', JStr (''https://www.google.com/search?q='' @ enc)),
                          (''title'', query)])))"

definition webSearchQueries :: "genai_response \<Rightarrow> js" where
  "webSearchQueries response =
     opt_prop (opt_prop (opt_index0 (candidates response)) ''groundingMetadata'')
       ''webSearchQueries''"

text \<open>
  \<^verbatim>\<open>response.candidates?.[0]?.groundingMetadata?.webSearchQueries?.map(...) || []\<close>:
  an undefined or null link ends the chain with undefined, which \<^verbatim>\<open>|| []\<close> replaces;
  an array is mapped (and the result, an array, is truthy); any other value has no
  callable \<^verbatim>\<open>map\<close>.
\<close>

definition citationSources :: "runtime \<Rightarrow> genai_response \<Rightarrow> exn + js" where
  "citationSources rt response =
     (case webSearchQueries response of
        JUndefined \<Rightarrow> Inr (JArr [])
      | JNull \<Rightarrow> Inr (JArr [])
      | JArr queries \<Rightarrow>
          (case map_throw (citation rt) queries of
             Inl e \<Rightarrow> Inl e
           | Inr sources \<Rightarrow> Inr (JArr sources))
      | _ \<Rightarrow>
          Inl (TypeError
            ''response.candidates?.[0]?.groundingMetadata?.webSearchQueries?.map is not a function''))"

definition chat_error :: string where
  "chat_error = ''An internal server error occurred while analyzing the request.''"

definition chat_handler :: "runtime \<Rightarrow> provider \<Rightarrow> js \<Rightarrow> outcome" where
  "chat_handler rt ai body =
     (case destructure body ''prompt'' of
        Inl e \<Rightarrow> caught [] chat_error e
      | Inr prompt \<Rightarrow>
          let file = get_prop body ''file'' in
          if \<not> truthy prompt then
            reply [] 400 (JObj [(''error'', JStr ''Prompt is required.'')])
          else
            (case chat_parts rt prompt file of
               Inl e \<Rightarrow> caught [] chat_error e
             | Inr parts \<Rightarrow>
                 let request = chat_request parts in
                 (case generateContent ai request of
                    Inl e \<Rightarrow> caught [GenerateContent request] chat_error e
                  | Inr response \<Rightarrow>
                      (case citationSources rt response of
                         Inl e \<Rightarrow> caught [GenerateContent request] chat_error e
                       | Inr citations \<Rightarrow>
                           reply [GenerateContent request] 200
                             (JObj [(''text'', response_text response),
                                    (''sources'', citations)])))))"

section \<open>POST /api/sentiment\<close>

definition sentiment_prompt :: "string \<Rightarrow> string" where
  "sentiment_prompt asset =
     ''Analyze the current market sentiment, key drivers, and outlook for the asset: **''
     @ asset @ ''**. Search the web for real-time data and news.''"

definition SENTIMENT_SCHEMA :: js where
  "SENTIMENT_SCHEMA =
     JObj [(''type'', JStr ''OBJECT''),
           (''properties'',
            JObj [(''asset'',
                   JObj [(''type'', JStr ''STRING''),
                         (''description'', JStr ''The asset analyzed (e.g., BTC/USD).'')]),
                  (''sentiment_score'',
                   JObj [(''type'', JStr ''NUMBER''),
                         (''description'',
                          JStr ''A score from -10 (Extremely Bearish) to +10 (Extremely Bullish).'')]),
                  (''key_drivers'',
                   JObj [(''type'', JStr ''ARRAY''),
                         (''items'',
                          JObj [(''type'', JStr ''STRING''),
                                (''description'',
                                 JStr (''Top 3 factors currently affecting the asset''
                                   @ [CHR 0x27] @ ''s price, e.g., '' @ [CHR 0x27]
                                   @ ''Fed Rate Hike Speculation'' @ [CHR 0x27] @ '' or ''
                                   @ [CHR 0x27] @ ''Major Exchange Hack'' @ [CHR 0x27] @ ''.''))])]),
                  (''summary'',
                   JObj [(''type'', JStr ''STRING''),
                         (''description'',
                          JStr (''A concise paragraph summarizing the current market sentiment ''
                            @ ''and outlook based on the key drivers.''))])]),
           (''required'',
            JArr [JStr ''asset'', JStr ''sentiment_score'', JStr ''key_drivers'', JStr ''summary''])]"

definition sentiment_request :: "string \<Rightarrow> js" where
  "sentiment_request prompt =
     JObj [(''model'', JStr ''gemini-2.5-flash''),
           (''contents'',
            JArr [JObj [(''role'', JStr ''user''), (''parts'', JArr [JObj [(''text'', JStr prompt)]])]]),
           (''config'',
            JObj [(''tools'', google_search_tools),
                  (''responseMimeType'', JStr ''application/json''),
                  (''responseSchema'', SENTIMENT_SCHEMA)])]"

text \<open>\<^verbatim>\<open>JSON.parse(x)\<close> converts its argument to a string first.\<close>

definition JSON_parse :: "runtime \<Rightarrow> js \<Rightarrow> exn + js" where
  "JSON_parse rt x =
     (case to_string rt x of Inl e \<Rightarrow> Inl e | Inr s \<Rightarrow> json_parse rt s)"

definition sentiment_error :: string where
  "sentiment_error = ''An internal server error occurred during structured sentiment analysis.''"

definition sentiment_handler :: "runtime \<Rightarrow> provider \<Rightarrow> js \<Rightarrow> outcome" where
  "sentiment_handler rt ai body =
     (case destructure body ''asset'' of
        Inl e \<Rightarrow> caught [] sentiment_error e
      | Inr asset \<Rightarrow>
          if \<not> truthy asset then
            reply [] 400 (JObj [(''error'', JStr ''Asset name is required for sentiment analysis.'')])
          else
            (case to_string rt asset of
               Inl e \<Rightarrow> caught [] sentiment_error e
             | Inr named \<Rightarrow>
                 let request = sentiment_request (sentiment_prompt named) in
                 (case generateContent ai request of
                    Inl e \<Rightarrow> caught [GenerateContent request] sentiment_error e
                  | Inr response \<Rightarrow>
                      (case JSON_parse rt (response_text response) of
                         Inl e \<Rightarrow> caught [GenerateContent request] sentiment_error e
                       | Inr structuredData \<Rightarrow>
                           reply [GenerateContent request] 200 structuredData))))"

section \<open>POST /api/generate-image\<close>

text \<open>
  The key is \<^verbatim>\<open>process.env.GEMINI_API_KEY\<close>, a string; the server does not start
  without it. The string \<^verbatim>\<open>IMAGEN_API_URL\<close> is built and never used.
\<close>

definition image_url :: "string \<Rightarrow> string" where
  "image_url API_KEY =
     ''https://generativelanguage.googleapis.com/v1beta/models/imagen-3.0-generate-002:generateImages?key=''
     @ API_KEY"

definition image_payload :: "js \<Rightarrow> js" where
  "image_payload prompt =
     JObj [(''prompt'', prompt),
           (''config'',
            JObj [(''numberOfImages'', JNum (Finite 1)), (''aspectRatio'', JStr ''1:1'')])]"

text \<open>\<^verbatim>\<open>data.generatedImages[0].image.imageBytes\<close>, every link unguarded.\<close>

definition imageBytes :: "js \<Rightarrow> exn + js" where
  "imageBytes data =
     (case read_prop data ''generatedImages'' of
        Inl e \<Rightarrow> Inl e
      | Inr images \<Rightarrow>
          (case read_index0 images of
             Inl e \<Rightarrow> Inl e
           | Inr generated \<Rightarrow>
               (case read_prop generated ''image'' of
                  Inl e \<Rightarrow> Inl e
                | Inr img \<Rightarrow> read_prop img ''imageBytes'')))"

definition image_error :: string where
  "image_error = ''An internal server error occurred during image generation.''"

definition generate_image_handler :: "string \<Rightarrow> runtime \<Rightarrow> provider \<Rightarrow> js \<Rightarrow> outcome" where
  "generate_image_handler API_KEY rt net body =
     (case destructure body ''prompt'' of
        Inl e \<Rightarrow> caught [] image_error e
      | Inr prompt \<Rightarrow>
          if \<not> truthy prompt then
            reply [] 400 (JObj [(''error'', JStr ''Image prompt is required.'')])
          else
            let url = image_url API_KEY;
                payload = image_payload prompt;
                sent = [Fetch url payload]
            in
            (case fetch net url payload of
               Inl e \<Rightarrow> caught sent image_error e
             | Inr response \<Rightarrow>
                 if \<not> ok response then
                   (case body_text response of
                      Inl e \<Rightarrow> caught sent image_error e
                    | Inr errorText \<Rightarrow>
                        caught sent image_error (Error (''Imagen API Failed: '' @ errorText)))
                 else
                   (case response_json rt response of
                      Inl e \<Rightarrow> caught sent image_error e
                    | Inr data \<Rightarrow>
                        (case imageBytes data of
                           Inl e \<Rightarrow> caught sent image_error e
                         | Inr base64Image \<Rightarrow>
                             reply sent 200 (JObj [(''base64Image'', base64Image)])))))"

section \<open>POST /api/tts\<close>

definition tts_url :: "string \<Rightarrow> string" where
  "tts_url API_KEY =
     ''https://generativelanguage.googleapis.com/v1beta/models/gemini-2.5-flash-preview-tts:generateContent?key=''
     @ API_KEY"

definition tts_payload :: "js \<Rightarrow> js" where
  "tts_payload txt =
     JObj [(''contents'', JArr [JObj [(''parts'', JArr [JObj [(''text'', txt)]])]]),
           (''generationConfig'',
            JObj [(''responseModalities'', JArr [JStr ''AUDIO'']),
                  (''speechConfig'',
                   JObj [(''voiceConfig'',
                          JObj [(''prebuiltVoiceConfig'',
                                 JObj [(''voiceName'', JStr ''Charon'')])])])])]"

text \<open>\<^verbatim>\<open>result?.candidates?.[0]?.content?.parts?.[0]\<close>.\<close>

definition first_part :: "js \<Rightarrow> js" where
  "first_part result =
     opt_index0 (opt_prop (opt_prop (opt_index0 (opt_prop result ''candidates'')) ''content'')
       ''parts'')"

text \<open>
  \<^verbatim>\<open>!part || !part.inlineData || !part.inlineData.data\<close>; each read sits behind the test
  that its object is truthy, so none throws.
\<close>

definition missing_audio :: "js \<Rightarrow> bool" where
  "missing_audio part =
     (\<not> truthy part \<or> \<not> truthy (get_prop part ''inlineData'')
      \<or> \<not> truthy (get_prop (get_prop part ''inlineData'') ''data''))"

definition tts_error :: string where
  "tts_error = ''An internal server error occurred during Text-to-Speech generation.''"

definition tts_handler :: "string \<Rightarrow> runtime \<Rightarrow> provider \<Rightarrow> js \<Rightarrow> outcome" where
  "tts_handler API_KEY rt net body =
     (case destructure body ''text'' of
        Inl e \<Rightarrow> caught [] tts_error e
      | Inr txt \<Rightarrow>
          if \<not> truthy txt then
            reply [] 400 (JObj [(''error'', JStr ''Text is required for TTS.'')])
          else
            let url = tts_url API_KEY;
                payload = tts_payload txt;
                sent = [Fetch url payload]
            in
            (case fetch net url payload of
               Inl e \<Rightarrow> caught sent tts_error e
             | Inr response \<Rightarrow>
                 if \<not> ok response then
                   (case body_text response of
                      Inl e \<Rightarrow> caught sent tts_error e
                    | Inr errorText \<Rightarrow>
                        caught sent tts_error (Error (''TTS API Failed: '' @ errorText)))
                 else
                   (case response_json rt response of
                      Inl e \<Rightarrow> caught sent tts_error e
                    | Inr result \<Rightarrow>
                        let part = first_part result in
                        if missing_audio part then
                          caught sent tts_error (Error ''TTS response missing inline audio data.'')
                        else
                          reply sent 200
                            (JObj [(''audioData'', get_prop (get_prop part ''inlineData'') ''data''),
                                   (''mimeType'',
                                    get_prop (get_prop part ''inlineData'') ''mimeType'')]))))"

section \<open>The response shape the specification names\<close>





section \<open>A runtime and providers for concrete runs\<close>

text \<open>
  The concrete runs below need the built-ins at a few arguments. \<open>percent_encode\<close> is
  \<^verbatim>\<open>encodeURIComponent\<close> on strings of code units below 256: the unreserved characters
  stay, any other code unit becomes its UTF-8 bytes as \<^verbatim>\<open>%XX\<close>. \<open>show_number\<close> is the
  conversion of an integer-valued number below \<open>10\<^sup>2\<^sup>1\<close> and of the three values that are
  not finite. \<open>parse_sample\<close> is \<^verbatim>\<open>JSON.parse\<close> on the sample texts and on
  \<^verbatim>\<open>Sorry, no data.\<close>, which is not JSON. The concrete runs stay within these
  arguments; the theorems hold for every runtime.
\<close>

definition unreserved :: "char \<Rightarrow> bool" where
  "unreserved c =
     (c \<in> set (''ABCDEFGHIJKLMNOPQRSTUVWXYZabcdefghijklmnopqrstuvwxyz0123456789-_.!~*()''
               @ [CHR 0x27]))"

definition hex_digit :: "nat \<Rightarrow> char" where
  "hex_digit d = ''0123456789ABCDEF'' ! d"

definition percent :: "nat \<Rightarrow> string" where
  "percent byte = [CHR ''%'', hex_digit (byte div 16), hex_digit (byte mod 16)]"

definition encode_unit :: "char \<Rightarrow> string" where
  "encode_unit c =
     (let u = (of_char c :: nat) in
      if unreserved c then [c]
      else if u < 128 then percent u
      else percent (192 + u div 64) @ percent (128 + u mod 64))"

definition percent_encode :: "string \<Rightarrow> exn + string" where
  "percent_encode s = Inr (concat (map encode_unit s))"

fun digits :: "nat \<Rightarrow> string" where
  "digits n = (if n < 10 then [hex_digit n] else digits (n div 10) @ [hex_digit (n mod 10)])"

definition show_number :: "jsnum \<Rightarrow> string" where
  "show_number n =
     (case n of
        NaN \<Rightarrow> ''NaN''
      | PosInfinity \<Rightarrow> ''Infinity''
      | NegInfinity \<Rightarrow> ''-Infinity''
      | Finite q \<Rightarrow>
          (let i = fst (quotient_of q) in
           if i < 0 then ''-'' @ digits (nat (- i)) else digits (nat i)))"

definition sentiment_text :: string where
  \<open>sentiment_text =
     ''{"asset":"BTC/USD","sentiment_score":4,"key_drivers":["A","B"],"summary":"..."}''\<close>

definition sentiment_value :: js where
  "sentiment_value =
     JObj [(''asset'', JStr ''BTC/USD''), (''sentiment_score'', JNum (Finite 4)),
           (''key_drivers'', JArr [JStr ''A'', JStr ''B'']), (''summary'', JStr ''...'')]"

definition euphoric_text :: string where
  \<open>euphoric_text =
     ''{"asset":"BTC/USD","sentiment_score":42,"key_drivers":["A","B","C","D"],"summary":"..."}''\<close>

definition euphoric_value :: js where
  "euphoric_value =
     JObj [(''asset'', JStr ''BTC/USD''), (''sentiment_score'', JNum (Finite 42)),
           (''key_drivers'', JArr [JStr ''A'', JStr ''B'', JStr ''C'', JStr ''D'']),
           (''summary'', JStr ''...'')]"

definition audio_text :: string where
  \<open>audio_text =
     ''{"candidates":[{"content":{"parts":[{"inlineData":{"data":"UklGRg==","mimeType":"audio/L16"}}]}}]}''\<close>

definition audio_value :: js where
  "audio_value =
     JObj [(''candidates'',
       JArr [JObj [(''content'',
         JObj [(''parts'',
           JArr [JObj [(''inlineData'',
             JObj [(''data'', JStr ''UklGRg==''), (''mimeType'', JStr ''audio/L16'')])]])])]])]"

definition silent_text :: string where
  \<open>silent_text = ''{"candidates":[{"content":{"parts":[{"text":"no audio"}]}}]}''\<close>

definition silent_value :: js where
  "silent_value =
     JObj [(''candidates'',
       JArr [JObj [(''content'',
         JObj [(''parts'', JArr [JObj [(''text'', JStr ''no audio'')]])])]])]"

definition no_images_text :: string where
  \<open>no_images_text = ''{"generatedImages":[]}''\<close>

definition no_images_value :: js where
  "no_images_value = JObj [(''generatedImages'', JArr [])]"

definition parse_sample :: "string \<Rightarrow> exn + js" where
  "parse_sample t =
     (if t = sentiment_text then Inr sentiment_value
      else if t = euphoric_text then Inr euphoric_value
      else if t = audio_text then Inr audio_value
      else if t = silent_text then Inr silent_value
      else if t = no_images_text then Inr no_images_value
      else if t = ''{}'' then Inr (JObj [])
      else Inl (SyntaxError ''Unexpected token S in JSON at position 0''))"

definition node :: runtime where
  "node = \<lparr>json_parse = parse_sample, number_to_string = show_number,
            encodeURIComponent = percent_encode\<rparr>"

text \<open>A provider that answers every \<^verbatim>\<open>generateContent\<close> call with one response.\<close>

definition answering :: "genai_response \<Rightarrow> provider" where
  "answering response =
     \<lparr>generateContent = (\<lambda>request. Inr response),
      fetch = (\<lambda>url payload. Inl (TypeError ''fetch failed''))\<rparr>"

text \<open>A provider that answers every \<^verbatim>\<open>fetch\<close> with one response.\<close>

definition fetching :: "fetch_response \<Rightarrow> provider" where
  "fetching response =
     \<lparr>generateContent = (\<lambda>request. Inl (Error ''fetch failed'')),
      fetch = (\<lambda>url payload. Inr response)\<rparr>"

text \<open>
  A chat response grounded on the two searches of the specification's example, one
  without grounding, and a request whose file has no \<^verbatim>\<open>base64Data\<close> and a \<^verbatim>\<open>mimeType\<close>
  that cannot be converted to a string.
\<close>

definition grounded_response :: genai_response where
  "grounded_response =
     \<lparr>candidates =
        JArr [JObj [(''groundingMetadata'',
                JObj [(''webSearchQueries'', JArr [JStr ''BTC price'', JStr ''ETH news''])])]],
      response_text = JStr ''Both are up.''\<rparr>"

definition plain_response :: genai_response where
  "plain_response = \<lparr>candidates = JArr [JObj []], response_text = JStr ''Both are up.''\<rparr>"

definition odd_file_request :: js where
  "odd_file_request =
     JObj [(''prompt'', JStr ''What is this chart?''),
           (''file'', JObj [(''mimeType'', JObj [(''toString'', JNum (Finite 1))])])]"

text \<open>The body of a provider reply with status 403.\<close>

definition forbidden_text :: string where
  \<open>forbidden_text = ''{"error":{"code":403,"status":"PERMISSION_DENIED"}}''\<close>

section \<open>Facts shared by the handlers\<close>

lemma destructure_present: "\<not> nullish body \<Longrightarrow> destructure body k = Inr (get_prop body k)"
  by (simp add: destructure_def)

lemma falsy_absent_or_empty: "v = JUndefined \<or> v = JStr '''' \<Longrightarrow> \<not> truthy v"
  by auto

lemma status_caught: "status (caught cs fixed e) = 500"
  by (simp add: caught_def reply_def)

lemma status_reply: "status (reply cs st v) = st"
  by (simp add: reply_def)

section \<open>Validation of the required field\<close>

text \<open>
  Claim C1 says that every POST whose body omits the required field is answered 400.
  A POST that leaves \<^verbatim>\<open>req.body\<close> undefined, with nothing for \<^verbatim>\<open>express.json\<close> to parse,
  omits the field as well, but \<^verbatim>\<open>const { prompt } = req.body\<close> throws inside the \<^verbatim>\<open>try\<close>
  block and the \<^verbatim>\<open>catch\<close> block answers 500 on each of the four routes.
\<close>

theorem required_field_no_body_counterexample:
  "chat_handler node (answering plain_response) JUndefined =
     \<lparr>calls = [], status = 500,
      json = JObj [(''error'', JStr ''An internal server error occurred while analyzing the request.''),
                   (''details'',
                    JStr (''Cannot destructure property '' @ [CHR 0x27] @ ''prompt'' @ [CHR 0x27]
                      @ '' of '' @ [CHR 0x27] @ ''req.body'' @ [CHR 0x27]
                      @ '' as it is undefined.''))]\<rparr>
   \<and> status (sentiment_handler node (answering plain_response) JUndefined) = 500
   \<and> status (generate_image_handler ''k'' node (fetching \<lparr>ok = True, body_text = Inr ''{}''\<rparr>)
        JUndefined) = 500
   \<and> status (tts_handler ''k'' node (fetching \<lparr>ok = True, body_text = Inr ''{}''\<rparr>)
        JUndefined) = 500"
  by (simp add: chat_handler_def sentiment_handler_def generate_image_handler_def tts_handler_def
      destructure_def caught_def reply_def chat_error_def)

text \<open>
  Claim C1, amended. On each of the four routes, when \<^verbatim>\<open>req.body\<close> is a parsed value (an
  object or an array, anything a property can be read from) that omits the required
  field (the read answers undefined) or supplies it as the empty string, the reply is
  400 with an \<^verbatim>\<open>error\<close> message, and the list of outbound calls is empty.
\<close>

theorem required_field_missing:
  assumes "\<not> nullish body"
  shows "(get_prop body ''prompt'' = JUndefined \<or> get_prop body ''prompt'' = JStr '''' \<longrightarrow>
            chat_handler rt ai body =
              \<lparr>calls = [], status = 400, json = JObj [(''error'', JStr ''Prompt is required.'')]\<rparr>)
       \<and> (get_prop body ''asset'' = JUndefined \<or> get_prop body ''asset'' = JStr '''' \<longrightarrow>
            sentiment_handler rt ai body =
              \<lparr>calls = [], status = 400,
               json = JObj [(''error'', JStr ''Asset name is required for sentiment analysis.'')]\<rparr>)
       \<and> (get_prop body ''prompt'' = JUndefined \<or> get_prop body ''prompt'' = JStr '''' \<longrightarrow>
            generate_image_handler API_KEY rt net body =
              \<lparr>calls = [], status = 400, json = JObj [(''error'', JStr ''Image prompt is required.'')]\<rparr>)
       \<and> (get_prop body ''text'' = JUndefined \<or> get_prop body ''text'' = JStr '''' \<longrightarrow>
            tts_handler API_KEY rt net body =
              \<lparr>calls = [], status = 400, json = JObj [(''error'', JStr ''Text is required for TTS.'')]\<rparr>)"
proof (intro conjI impI)
  assume "get_prop body ''prompt'' = JUndefined \<or> get_prop body ''prompt'' = JStr ''''"
  then have falsy: "\<not> truthy (get_prop body ''prompt'')"
    by (rule falsy_absent_or_empty)
  show "chat_handler rt ai body =
      \<lparr>calls = [], status = 400, json = JObj [(''error'', JStr ''Prompt is required.'')]\<rparr>"
    using assms falsy by (simp add: chat_handler_def destructure_present reply_def)
  show "generate_image_handler API_KEY rt net body =
      \<lparr>calls = [], status = 400, json = JObj [(''error'', JStr ''Image prompt is required.'')]\<rparr>"
    using assms falsy by (simp add: generate_image_handler_def destructure_present reply_def)
next
  assume "get_prop body ''asset'' = JUndefined \<or> get_prop body ''asset'' = JStr ''''"
  then have falsy: "\<not> truthy (get_prop body ''asset'')"
    by (rule falsy_absent_or_empty)
  show "sentiment_handler rt ai body =
      \<lparr>calls = [], status = 400,
       json = JObj [(''error'', JStr ''Asset name is required for sentiment analysis.'')]\<rparr>"
    using assms falsy by (simp add: sentiment_handler_def destructure_present reply_def)
next
  assume "get_prop body ''text'' = JUndefined \<or> get_prop body ''text'' = JStr ''''"
  then have falsy: "\<not> truthy (get_prop body ''text'')"
    by (rule falsy_absent_or_empty)
  show "tts_handler API_KEY rt net body =
      \<lparr>calls = [], status = 400, json = JObj [(''error'', JStr ''Text is required for TTS.'')]\<rparr>"
    using assms falsy by (simp add: tts_handler_def destructure_present reply_def)
qed

text \<open>
  The theorem at a body with no required field at all, for the chat and sentiment routes,
  and at bodies with an empty one, for the image and speech routes.
\<close>

theorem required_field_missing_witness:
  "\<not> nullish (JObj [(''file'', JObj [])])
   \<and> get_prop (JObj [(''file'', JObj [])]) ''prompt'' = JUndefined
   \<and> chat_handler node (answering \<lparr>candidates = JUndefined, response_text = JStr ''up''\<rparr>)
       (JObj [(''file'', JObj [])]) =
     \<lparr>calls = [], status = 400, json = JObj [(''error'', JStr ''Prompt is required.'')]\<rparr>
   \<and> get_prop (JObj [(''file'', JObj [])]) ''asset'' = JUndefined
   \<and> sentiment_handler node (answering \<lparr>candidates = JUndefined, response_text = JStr ''up''\<rparr>)
       (JObj [(''file'', JObj [])]) =
     \<lparr>calls = [], status = 400,
      json = JObj [(''error'', JStr ''Asset name is required for sentiment analysis.'')]\<rparr>
   \<and> get_prop (JObj [(''prompt'', JStr '''')]) ''prompt'' = JStr ''''
   \<and> generate_image_handler ''k'' node (fetching \<lparr>ok = True, body_text = Inr ''{}''\<rparr>)
       (JObj [(''prompt'', JStr '''')]) =
     \<lparr>calls = [], status = 400, json = JObj [(''error'', JStr ''Image prompt is required.'')]\<rparr>
   \<and> get_prop (JObj [(''text'', JStr '''')]) ''text'' = JStr ''''
   \<and> tts_handler ''k'' node (fetching \<lparr>ok = True, body_text = Inr ''{}''\<rparr>)
       (JObj [(''text'', JStr '''')]) =
     \<lparr>calls = [], status = 400, json = JObj [(''error'', JStr ''Text is required for TTS.'')]\<rparr>"
  using required_field_missing [of "JObj [(''file'', JObj [])]" node
      "answering \<lparr>candidates = JUndefined, response_text = JStr ''up''\<rparr>" "''k''"
      "fetching \<lparr>ok = True, body_text = Inr ''{}''\<rparr>"]
    required_field_missing [of "JObj [(''prompt'', JStr '''')]" node
      "answering \<lparr>candidates = JUndefined, response_text = JStr ''up''\<rparr>" "''k''"
      "fetching \<lparr>ok = True, body_text = Inr ''{}''\<rparr>"]
    required_field_missing [of "JObj [(''text'', JStr '''')]" node
      "answering \<lparr>candidates = JUndefined, response_text = JStr ''up''\<rparr>" "''k''"
      "fetching \<lparr>ok = True, body_text = Inr ''{}''\<rparr>"]
  by simp

section \<open>The sentiment route\<close>

lemma sentiment_after_call:
  assumes "\<not> nullish body" and "truthy (get_prop body ''asset'')"
    and "to_string rt (get_prop body ''asset'') = Inr named"
    and "generateContent ai (sentiment_request (sentiment_prompt named)) = Inr response"
  shows "sentiment_handler rt ai body =
     (case JSON_parse rt (response_text response) of
        Inl e \<Rightarrow>
          caught [GenerateContent (sentiment_request (sentiment_prompt named))] sentiment_error e
      | Inr structuredData \<Rightarrow>
          reply [GenerateContent (sentiment_request (sentiment_prompt named))] 200 structuredData)"
  using assms by (simp add: sentiment_handler_def destructure_present Let_def)

lemmas sample_run =
  destructure_def node_def answering_def fetching_def JSON_parse_def parse_sample_def
  sentiment_text_def euphoric_text_def audio_text_def silent_text_def no_images_text_def

text \<open>
  Claim C2. A sentiment request with a truthy asset, whose provider call succeeds with a
  text that \<^verbatim>\<open>JSON.parse\<close> rejects, gets the reply 500 with the body
  \<^verbatim>\<open>{error, details}\<close>, \<^verbatim>\<open>details\<close> being the message of the parse error. The call that
  succeeds is the one for the prompt built around the asset's name, \<open>named\<close>. The handler
  is a function to a reply: the throw ends in its own \<^verbatim>\<open>catch\<close> block, whose statements
  do not throw.
\<close>

theorem sentiment_malformed_json:
  assumes "\<not> nullish body" and "truthy (get_prop body ''asset'')"
    and "to_string rt (get_prop body ''asset'') = Inr named"
    and "generateContent ai (sentiment_request (sentiment_prompt named)) = Inr response"
    and "JSON_parse rt (response_text response) = Inl e"
  shows "sentiment_handler rt ai body =
     \<lparr>calls = [GenerateContent (sentiment_request (sentiment_prompt named))],
      status = 500,
      json = JObj [(''error'',
                    JStr ''An internal server error occurred during structured sentiment analysis.''),
                   (''details'', JStr (message e))]\<rparr>"
  using sentiment_after_call [OF assms(1-4)] assms(5)
  by (simp add: caught_def reply_def sentiment_error_def)

theorem sentiment_malformed_json_witness:
  "JSON_parse node (JStr ''Sorry, no data.'') = Inl (SyntaxError ''Unexpected token S in JSON at position 0'')
   \<and> sentiment_handler node
       (answering \<lparr>candidates = JUndefined, response_text = JStr ''Sorry, no data.''\<rparr>)
       (JObj [(''asset'', JStr ''BTC/USD'')]) =
     \<lparr>calls = [GenerateContent (sentiment_request (sentiment_prompt ''BTC/USD''))],
      status = 500,
      json = JObj [(''error'',
                    JStr ''An internal server error occurred during structured sentiment analysis.''),
                   (''details'', JStr ''Unexpected token S in JSON at position 0'')]\<rparr>"
  using sentiment_malformed_json [of "JObj [(''asset'', JStr ''BTC/USD'')]" node "''BTC/USD''"
      "answering \<lparr>candidates = JUndefined, response_text = JStr ''Sorry, no data.''\<rparr>"
      "\<lparr>candidates = JUndefined, response_text = JStr ''Sorry, no data.''\<rparr>"
      "SyntaxError ''Unexpected token S in JSON at position 0''"]
  by (simp add: sample_run)

text \<open>
  Claim C6. When the provider's text parses, the reply is 200 and its body is the parsed
  value itself: nothing is changed, dropped or checked on the way.
\<close>

theorem sentiment_verbatim:
  assumes "\<not> nullish body" and "truthy (get_prop body ''asset'')"
    and "to_string rt (get_prop body ''asset'') = Inr named"
    and "generateContent ai (sentiment_request (sentiment_prompt named)) = Inr response"
    and "JSON_parse rt (response_text response) = Inr structuredData"
  shows "sentiment_handler rt ai body =
     \<lparr>calls = [GenerateContent (sentiment_request (sentiment_prompt named))],
      status = 200, json = structuredData\<rparr>"
  using sentiment_after_call [OF assms(1-4)] assms(5)
  by (simp add: reply_def)

text \<open>The specification's example: the provider's JSON for \<^verbatim>\<open>BTC/USD\<close> comes back unchanged.\<close>

theorem sentiment_verbatim_witness:
  "JSON_parse node (JStr sentiment_text) = Inr sentiment_value
   \<and> sentiment_handler node
       (answering \<lparr>candidates = JUndefined, response_text = JStr sentiment_text\<rparr>)
       (JObj [(''asset'', JStr ''BTC/USD'')]) =
     \<lparr>calls = [GenerateContent (sentiment_request (sentiment_prompt ''BTC/USD''))],
      status = 200, json = sentiment_value\<rparr>"
  using sentiment_verbatim [of "JObj [(''asset'', JStr ''BTC/USD'')]" node "''BTC/USD''"
      "answering \<lparr>candidates = JUndefined, response_text = JStr sentiment_text\<rparr>"
      "\<lparr>candidates = JUndefined, response_text = JStr sentiment_text\<rparr>" sentiment_value]
  by (simp add: sample_run)




section \<open>The chat route\<close>

lemma chat_after_parts:
  assumes "\<not> nullish body" and "truthy (get_prop body ''prompt'')"
    and "chat_parts rt (get_prop body ''prompt'') (get_prop body ''file'') = Inr parts"
  shows "chat_handler rt ai body =
     (case generateContent ai (chat_request parts) of
        Inl e \<Rightarrow> caught [GenerateContent (chat_request parts)] chat_error e
      | Inr response \<Rightarrow>
          (case citationSources rt response of
             Inl e \<Rightarrow> caught [GenerateContent (chat_request parts)] chat_error e
           | Inr citations \<Rightarrow>
               reply [GenerateContent (chat_request parts)] 200
                 (JObj [(''text'', response_text response), (''sources'', citations)])))"
  using assms by (simp add: chat_handler_def destructure_present Let_def)

lemma chat_before_parts:
  assumes "\<not> nullish body" and "truthy (get_prop body ''prompt'')"
    and "chat_parts rt (get_prop body ''prompt'') (get_prop body ''file'') = Inl e"
  shows "chat_handler rt ai body = caught [] chat_error e"
  using assms by (simp add: chat_handler_def destructure_present Let_def)

lemma calls_caught: "calls (caught cs fixed e) = cs"
  by (simp add: caught_def reply_def)

lemma calls_reply: "calls (reply cs st v) = cs"
  by (simp add: reply_def)

lemma chat_calls_after_parts:
  assumes "\<not> nullish body" and "truthy (get_prop body ''prompt'')"
    and "chat_parts rt (get_prop body ''prompt'') (get_prop body ''file'') = Inr parts"
  shows "calls (chat_handler rt ai body) = [GenerateContent (chat_request parts)]"
  unfolding chat_after_parts [OF assms]
  by (simp add: calls_caught calls_reply split: sum.splits)

lemma chat_parts_cases:
  "chat_parts rt prompt file = Inr parts \<Longrightarrow>
     parts = (if truthy file then [inline_part file, text_part prompt] else [text_part prompt])"
  by (auto simp: chat_parts_def split: if_splits sum.splits)

text \<open>
  Claim C3. For a chat request with a truthy prompt, every outbound request is the
  argument of \<^verbatim>\<open>ai.models.generateContent\<close> written out below: the model, the tools, and
  one content entry of role \<^verbatim>\<open>user\<close> whose \<^verbatim>\<open>parts\<close> are the text part \<^verbatim>\<open>{text: prompt}\<close>
  alone when the file is absent (or falsy), and the inline-data part
  \<^verbatim>\<open>{inlineData: {data: file.base64Data, mimeType: file.mimeType}}\<close> followed by the text
  part when a file is supplied. Without a file, and with a file whose \<^verbatim>\<open>mimeType\<close> the
  log line can print, exactly that one request is made.
\<close>

theorem chat_request_parts:
  assumes "\<not> nullish body" and "truthy (get_prop body ''prompt'')"
  shows "(\<forall>c \<in> set (calls (chat_handler rt ai body)).
            c = GenerateContent
                  (JObj [(''model'', JStr ''gemini-2.5-flash''),
                         (''contents'',
                          JArr [JObj [(''role'', JStr ''user''),
                            (''parts'',
                             JArr (if truthy (get_prop body ''file'')
                                   then [JObj [(''inlineData'',
                                           JObj [(''data'',
                                                  get_prop (get_prop body ''file'') ''base64Data''),
                                                 (''mimeType'',
                                                  get_prop (get_prop body ''file'') ''mimeType'')])],
                                         JObj [(''text'', get_prop body ''prompt'')]]
                                   else [JObj [(''text'', get_prop body ''prompt'')]]))]]),
                         (''config'',
                          JObj [(''tools'', JArr [JObj [(''googleSearch'', JObj [])]])])]))
       \<and> (get_prop body ''file'' = JUndefined \<longrightarrow>
            calls (chat_handler rt ai body) =
              [GenerateContent
                 (JObj [(''model'', JStr ''gemini-2.5-flash''),
                        (''contents'',
                         JArr [JObj [(''role'', JStr ''user''),
                           (''parts'', JArr [JObj [(''text'', get_prop body ''prompt'')]])]]),
                        (''config'',
                         JObj [(''tools'', JArr [JObj [(''googleSearch'', JObj [])]])])])])
       \<and> (truthy (get_prop body ''file'')
            \<and> to_string rt (get_prop (get_prop body ''file'') ''mimeType'') = Inr logged \<longrightarrow>
            calls (chat_handler rt ai body) =
              [GenerateContent
                 (JObj [(''model'', JStr ''gemini-2.5-flash''),
                        (''contents'',
                         JArr [JObj [(''role'', JStr ''user''),
                           (''parts'',
                            JArr [JObj [(''inlineData'',
                                    JObj [(''data'',
                                           get_prop (get_prop body ''file'') ''base64Data''),
                                          (''mimeType'',
                                           get_prop (get_prop body ''file'') ''mimeType'')])],
                                  JObj [(''text'', get_prop body ''prompt'')]])]]),
                        (''config'',
                         JObj [(''tools'', JArr [JObj [(''googleSearch'', JObj [])]])])])])"
proof (intro conjI impI ballI)
  fix c
  assume c: "c \<in> set (calls (chat_handler rt ai body))"
  show "c = GenerateContent
          (JObj [(''model'', JStr ''gemini-2.5-flash''),
                 (''contents'',
                  JArr [JObj [(''role'', JStr ''user''),
                    (''parts'',
                     JArr (if truthy (get_prop body ''file'')
                           then [JObj [(''inlineData'',
                                   JObj [(''data'',
                                          get_prop (get_prop body ''file'') ''base64Data''),
                                         (''mimeType'',
                                          get_prop (get_prop body ''file'') ''mimeType'')])],
                                 JObj [(''text'', get_prop body ''prompt'')]]
                           else [JObj [(''text'', get_prop body ''prompt'')]]))]]),
                 (''config'',
                  JObj [(''tools'', JArr [JObj [(''googleSearch'', JObj [])]])])])"
  proof (cases "chat_parts rt (get_prop body ''prompt'') (get_prop body ''file'')")
    case (Inl e)
    with assms c show ?thesis
      by (simp add: chat_before_parts calls_caught)
  next
    case (Inr parts)
    with assms c have "c = GenerateContent (chat_request parts)"
      by (simp add: chat_calls_after_parts)
    with chat_parts_cases [OF Inr] show ?thesis
      by (simp add: inline_part_def text_part_def chat_request_def google_search_tools_def)
  qed
next
  assume "get_prop body ''file'' = JUndefined"
  then have "chat_parts rt (get_prop body ''prompt'') (get_prop body ''file'') =
      Inr [text_part (get_prop body ''prompt'')]"
    by (simp add: chat_parts_def)
  from chat_calls_after_parts [OF assms this]
  show "calls (chat_handler rt ai body) =
      [GenerateContent
         (JObj [(''model'', JStr ''gemini-2.5-flash''),
                (''contents'',
                 JArr [JObj [(''role'', JStr ''user''),
                   (''parts'', JArr [JObj [(''text'', get_prop body ''prompt'')]])]]),
                (''config'',
                 JObj [(''tools'', JArr [JObj [(''googleSearch'', JObj [])]])])])]"
    by (simp add: text_part_def chat_request_def google_search_tools_def)
next
  assume "truthy (get_prop body ''file'')
    \<and> to_string rt (get_prop (get_prop body ''file'') ''mimeType'') = Inr logged"
  then have "chat_parts rt (get_prop body ''prompt'') (get_prop body ''file'') =
      Inr [inline_part (get_prop body ''file''), text_part (get_prop body ''prompt'')]"
    by (simp add: chat_parts_def)
  from chat_calls_after_parts [OF assms this]
  show "calls (chat_handler rt ai body) =
      [GenerateContent
         (JObj [(''model'', JStr ''gemini-2.5-flash''),
                (''contents'',
                 JArr [JObj [(''role'', JStr ''user''),
                   (''parts'',
                    JArr [JObj [(''inlineData'',
                            JObj [(''data'',
                                   get_prop (get_prop body ''file'') ''base64Data''),
                                  (''mimeType'',
                                   get_prop (get_prop body ''file'') ''mimeType'')])],
                          JObj [(''text'', get_prop body ''prompt'')]])]]),
                (''config'',
                 JObj [(''tools'', JArr [JObj [(''googleSearch'', JObj [])]])])])]"
    by (simp add: inline_part_def text_part_def chat_request_def google_search_tools_def)
qed

text \<open>A request with an image file, and the same request without the file.\<close>

theorem chat_request_parts_witness:
  "calls (chat_handler node (answering plain_response)
       (JObj [(''prompt'', JStr ''What is this chart?''),
              (''file'', JObj [(''base64Data'', JStr ''iVBORw0KGgo=''),
                               (''mimeType'', JStr ''image/png'')])])) =
     [GenerateContent
        (JObj [(''model'', JStr ''gemini-2.5-flash''),
               (''contents'',
                JArr [JObj [(''role'', JStr ''user''),
                  (''parts'',
                   JArr [JObj [(''inlineData'',
                           JObj [(''data'', JStr ''iVBORw0KGgo=''),
                                 (''mimeType'', JStr ''image/png'')])],
                         JObj [(''text'', JStr ''What is this chart?'')]])]]),
               (''config'',
                JObj [(''tools'', JArr [JObj [(''googleSearch'', JObj [])]])])])]
   \<and> calls (chat_handler node (answering plain_response)
       (JObj [(''prompt'', JStr ''What is this chart?'')])) =
     [GenerateContent
        (JObj [(''model'', JStr ''gemini-2.5-flash''),
               (''contents'',
                JArr [JObj [(''role'', JStr ''user''),
                  (''parts'', JArr [JObj [(''text'', JStr ''What is this chart?'')]])]]),
               (''config'',
                JObj [(''tools'', JArr [JObj [(''googleSearch'', JObj [])]])])])]"
proof -
  have with_file: "\<not> nullish (JObj [(''prompt'', JStr ''What is this chart?''),
              (''file'', JObj [(''base64Data'', JStr ''iVBORw0KGgo=''),
                               (''mimeType'', JStr ''image/png'')])])"
    "truthy (get_prop (JObj [(''prompt'', JStr ''What is this chart?''),
              (''file'', JObj [(''base64Data'', JStr ''iVBORw0KGgo=''),
                               (''mimeType'', JStr ''image/png'')])]) ''prompt'')"
    by simp_all
  have without_file: "\<not> nullish (JObj [(''prompt'', JStr ''What is this chart?'')])"
    "truthy (get_prop (JObj [(''prompt'', JStr ''What is this chart?'')]) ''prompt'')"
    by simp_all
  note inline = chat_request_parts [OF with_file, of node "answering plain_response"
      "''image/png''", THEN conjunct2, THEN conjunct2]
  note text_only = chat_request_parts [OF without_file, of node "answering plain_response"
      "''image/png''", THEN conjunct2, THEN conjunct1]
  from inline have "calls (chat_handler node (answering plain_response)
       (JObj [(''prompt'', JStr ''What is this chart?''),
              (''file'', JObj [(''base64Data'', JStr ''iVBORw0KGgo=''),
                               (''mimeType'', JStr ''image/png'')])])) =
     [GenerateContent
        (JObj [(''model'', JStr ''gemini-2.5-flash''),
               (''contents'',
                JArr [JObj [(''role'', JStr ''user''),
                  (''parts'',
                   JArr [JObj [(''inlineData'',
                           JObj [(''data'', JStr ''iVBORw0KGgo=''),
                                 (''mimeType'', JStr ''image/png'')])],
                         JObj [(''text'', JStr ''What is this chart?'')]])]]),
               (''config'',
                JObj [(''tools'', JArr [JObj [(''googleSearch'', JObj [])]])])])]"
    by simp
  moreover from text_only have "calls (chat_handler node (answering plain_response)
       (JObj [(''prompt'', JStr ''What is this chart?'')])) =
     [GenerateContent
        (JObj [(''model'', JStr ''gemini-2.5-flash''),
               (''contents'',
                JArr [JObj [(''role'', JStr ''user''),
                  (''parts'', JArr [JObj [(''text'', JStr ''What is this chart?'')]])]]),
               (''config'',
                JObj [(''tools'', JArr [JObj [(''googleSearch'', JObj [])]])])])]"
    by simp
  ultimately show ?thesis
    by (rule conjI)
qed

lemma map_throw_Inr:
  "map_throw f xs = Inr ys \<Longrightarrow>
     length ys = length xs \<and> (\<forall>i < length xs. f (xs ! i) = Inr (ys ! i))"
proof (induction xs arbitrary: ys)
  case Nil
  then show ?case by simp
next
  case (Cons x xs)
  from Cons.prems obtain y ys' where
    y: "f x = Inr y" and ys': "map_throw f xs = Inr ys'" and ys: "ys = y # ys'"
    by (auto split: sum.splits)
  from Cons.IH [OF ys'] y ys show ?case
    by (auto simp: nth_Cons split: nat.splits)
qed

lemma citation_text:
  "encodeURIComponent rt q = Inr enc \<Longrightarrow>
     citation rt (JStr q) =
       Inr (JObj [(''uri'', JStr (''https://www.google.com/search?q='' @ enc)),
                  (''title'', JStr q)])"
  by (simp add: citation_def)

lemma map_throw_texts:
  "\<forall>q \<in> set texts. encodeURIComponent rt q = Inr (enc q) \<Longrightarrow>
     map_throw (citation rt) (map JStr texts) =
       Inr (map (\<lambda>q. JObj [(''uri'', JStr (''https://www.google.com/search?q='' @ enc q)),
                             (''title'', JStr q)]) texts)"
  by (induction texts) (simp_all add: citation_text)

lemma citation_Inr:
  "citation rt query = Inr source \<Longrightarrow>
     \<exists>s enc. to_string rt query = Inr s \<and> encodeURIComponent rt s = Inr enc
       \<and> source = JObj [(''uri'', JStr (''https://www.google.com/search?q='' @ enc)),
                        (''title'', query)]"
  by (auto simp: citation_def split: sum.splits)

lemma citationSources_absent:
  "nullish (webSearchQueries response) \<Longrightarrow> citationSources rt response = Inr (JArr [])"
  by (cases "webSearchQueries response") (simp_all add: citationSources_def)

lemma citationSources_array:
  "webSearchQueries response = JArr queries \<Longrightarrow>
     citationSources rt response =
       (case map_throw (citation rt) queries of
          Inl e \<Rightarrow> Inl e
        | Inr sources \<Rightarrow> Inr (JArr sources))"
  by (simp add: citationSources_def)

lemma chat_after_call:
  assumes "\<not> nullish body" and "truthy (get_prop body ''prompt'')"
    and "chat_parts rt (get_prop body ''prompt'') (get_prop body ''file'') = Inr parts"
    and "generateContent ai (chat_request parts) = Inr response"
  shows "chat_handler rt ai body =
     (case citationSources rt response of
        Inl e \<Rightarrow> caught [GenerateContent (chat_request parts)] chat_error e
      | Inr citations \<Rightarrow>
          reply [GenerateContent (chat_request parts)] 200
            (JObj [(''text'', response_text response), (''sources'', citations)]))"
  using chat_after_parts [OF assms(1-3)] assms(4) by simp

text \<open>
  Claim C4. After a successful provider call of the chat route:
  when the grounding metadata or its query list is absent, the reply is 200 with
  \<^verbatim>\<open>sources\<close> the empty list; when the queries are texts that \<^verbatim>\<open>encodeURIComponent\<close>
  accepts, the reply is 200 with \<^verbatim>\<open>sources\<close> the queries mapped, in order, to
  \<^verbatim>\<open>{uri: 'https://www.google.com/search?q=' + encoded query, title: query}\<close>; and in any
  reply 200 for a list of queries, \<^verbatim>\<open>sources\<close> has the length of the list and its
  \<open>i\<close>-th entry is built from the \<open>i\<close>-th query in that way.
\<close>

theorem chat_sources:
  assumes "\<not> nullish body" and "truthy (get_prop body ''prompt'')"
    and "chat_parts rt (get_prop body ''prompt'') (get_prop body ''file'') = Inr parts"
    and "generateContent ai (chat_request parts) = Inr response"
  shows "(nullish (webSearchQueries response) \<longrightarrow>
            chat_handler rt ai body =
              \<lparr>calls = [GenerateContent (chat_request parts)], status = 200,
               json = JObj [(''text'', response_text response), (''sources'', JArr [])]\<rparr>)
       \<and> (webSearchQueries response = JArr (map JStr texts)
            \<and> (\<forall>q \<in> set texts. encodeURIComponent rt q = Inr (enc q)) \<longrightarrow>
            chat_handler rt ai body =
              \<lparr>calls = [GenerateContent (chat_request parts)], status = 200,
               json = JObj [(''text'', response_text response),
                 (''sources'',
                  JArr (map (\<lambda>q. JObj [(''uri'', JStr (''https://www.google.com/search?q='' @ enc q)),
                                        (''title'', JStr q)]) texts))]\<rparr>)
       \<and> (webSearchQueries response = JArr queries
            \<and> status (chat_handler rt ai body) = 200 \<longrightarrow>
            (\<exists>sources.
                json (chat_handler rt ai body) =
                  JObj [(''text'', response_text response), (''sources'', JArr sources)]
              \<and> length sources = length queries
              \<and> (\<forall>i < length queries. \<exists>s encoded.
                    to_string rt (queries ! i) = Inr s
                  \<and> encodeURIComponent rt s = Inr encoded
                  \<and> sources ! i =
                      JObj [(''uri'', JStr (''https://www.google.com/search?q='' @ encoded)),
                            (''title'', queries ! i)])))"
proof (intro conjI impI)
  assume "nullish (webSearchQueries response)"
  then show "chat_handler rt ai body =
      \<lparr>calls = [GenerateContent (chat_request parts)], status = 200,
       json = JObj [(''text'', response_text response), (''sources'', JArr [])]\<rparr>"
    by (simp add: chat_after_call [OF assms] citationSources_absent reply_def)
next
  assume a: "webSearchQueries response = JArr (map JStr texts)
    \<and> (\<forall>q \<in> set texts. encodeURIComponent rt q = Inr (enc q))"
  let ?source = "\<lambda>q. JObj [(''uri'', JStr (''https://www.google.com/search?q='' @ enc q)),
                            (''title'', JStr q)]"
  from a have "\<forall>q \<in> set texts. encodeURIComponent rt q = Inr (enc q)" ..
  then have "map_throw (citation rt) (map JStr texts) = Inr (map ?source texts)"
    by (rule map_throw_texts)
  with a show "chat_handler rt ai body =
      \<lparr>calls = [GenerateContent (chat_request parts)], status = 200,
       json = JObj [(''text'', response_text response), (''sources'', JArr (map ?source texts))]\<rparr>"
    by (simp add: chat_after_call [OF assms] citationSources_array reply_def)
next
  assume a: "webSearchQueries response = JArr queries \<and> status (chat_handler rt ai body) = 200"
  then have q: "webSearchQueries response = JArr queries"
    and ok: "status (chat_handler rt ai body) = 200"
    by simp_all
  have run: "chat_handler rt ai body =
      (case map_throw (citation rt) queries of
         Inl e \<Rightarrow> caught [GenerateContent (chat_request parts)] chat_error e
       | Inr sources \<Rightarrow>
           reply [GenerateContent (chat_request parts)] 200
             (JObj [(''text'', response_text response), (''sources'', JArr sources)]))"
    by (simp add: chat_after_call [OF assms] citationSources_array [OF q] split: sum.splits)
  from ok obtain sources where m: "map_throw (citation rt) queries = Inr sources"
    by (cases "map_throw (citation rt) queries") (simp_all add: run status_caught)
  then have body: "json (chat_handler rt ai body) =
      JObj [(''text'', response_text response), (''sources'', JArr sources)]"
    by (simp add: run reply_def)
  from map_throw_Inr [OF m] have len: "length sources = length queries"
    and each: "\<forall>i < length queries. citation rt (queries ! i) = Inr (sources ! i)"
    by simp_all
  from each have "\<forall>i < length queries. \<exists>s encoded.
        to_string rt (queries ! i) = Inr s
      \<and> encodeURIComponent rt s = Inr encoded
      \<and> sources ! i =
          JObj [(''uri'', JStr (''https://www.google.com/search?q='' @ encoded)),
                (''title'', queries ! i)]"
    by (blast dest: citation_Inr)
  with body len show "\<exists>sources.
        json (chat_handler rt ai body) =
          JObj [(''text'', response_text response), (''sources'', JArr sources)]
      \<and> length sources = length queries
      \<and> (\<forall>i < length queries. \<exists>s encoded.
            to_string rt (queries ! i) = Inr s
          \<and> encodeURIComponent rt s = Inr encoded
          \<and> sources ! i =
              JObj [(''uri'', JStr (''https://www.google.com/search?q='' @ encoded)),
                    (''title'', queries ! i)])"
    by blast
qed

text \<open>
  A response without grounding metadata gives no sources. The specification's example:
  the searches \<^verbatim>\<open>BTC price\<close> and \<^verbatim>\<open>ETH news\<close> come back as two sources, each titled
  with its query and linking to the search for it.
\<close>

theorem chat_sources_witness:
  "nullish (webSearchQueries plain_response)
   \<and> chat_handler node (answering plain_response) (JObj [(''prompt'', JStr ''Markets today?'')]) =
     \<lparr>calls = [GenerateContent (chat_request [text_part (JStr ''Markets today?'')])],
      status = 200,
      json = JObj [(''text'', JStr ''Both are up.''), (''sources'', JArr [])]\<rparr>
   \<and> webSearchQueries grounded_response = JArr (map JStr [''BTC price'', ''ETH news''])
   \<and> chat_handler node (answering grounded_response) (JObj [(''prompt'', JStr ''Markets today?'')]) =
     \<lparr>calls = [GenerateContent (chat_request [text_part (JStr ''Markets today?'')])],
      status = 200,
      json = JObj [(''text'', JStr ''Both are up.''),
        (''sources'',
         JArr [JObj [(''uri'', JStr ''https://www.google.com/search?q=BTC%20price''),
                     (''title'', JStr ''BTC price'')],
               JObj [(''uri'', JStr ''https://www.google.com/search?q=ETH%20news''),
                     (''title'', JStr ''ETH news'')]])]\<rparr>"
proof -
  have body: "\<not> nullish (JObj [(''prompt'', JStr ''Markets today?'')])"
    "truthy (get_prop (JObj [(''prompt'', JStr ''Markets today?'')]) ''prompt'')"
    by simp_all
  have parts: "chat_parts node (get_prop (JObj [(''prompt'', JStr ''Markets today?'')]) ''prompt'')
      (get_prop (JObj [(''prompt'', JStr ''Markets today?'')]) ''file'') =
      Inr [text_part (JStr ''Markets today?'')]"
    by (simp add: chat_parts_def)
  have answer: "generateContent (answering response)
      (chat_request [text_part (JStr ''Markets today?'')]) = Inr response" for response
    by (simp add: answering_def)
  have absent: "nullish (webSearchQueries plain_response)"
    by (simp add: webSearchQueries_def plain_response_def opt_prop_def opt_index0_def)
  note chat_sources [OF body parts answer [of plain_response], THEN conjunct1]
  with absent have ungrounded: "chat_handler node (answering plain_response)
      (JObj [(''prompt'', JStr ''Markets today?'')]) =
     \<lparr>calls = [GenerateContent (chat_request [text_part (JStr ''Markets today?'')])],
      status = 200,
      json = JObj [(''text'', response_text plain_response), (''sources'', JArr [])]\<rparr>"
    by blast
  have queries: "webSearchQueries grounded_response = JArr (map JStr [''BTC price'', ''ETH news''])"
    by (simp add: webSearchQueries_def grounded_response_def opt_prop_def opt_index0_def)
  have encoded: "\<forall>q \<in> set [''BTC price'', ''ETH news''].
      encodeURIComponent node q = Inr (concat (map encode_unit q))"
    by (simp add: node_def percent_encode_def)
  have response_text: "response_text grounded_response = JStr ''Both are up.''"
    by (simp add: grounded_response_def)
  note chat_sources [OF body parts answer [of grounded_response],
      of "[''BTC price'', ''ETH news'']"
      "\<lambda>q. concat (map encode_unit q)", THEN conjunct2, THEN conjunct1]
  with queries encoded have "chat_handler node (answering grounded_response)
      (JObj [(''prompt'', JStr ''Markets today?'')]) =
     \<lparr>calls = [GenerateContent (chat_request [text_part (JStr ''Markets today?'')])],
      status = 200,
      json = JObj [(''text'', response_text grounded_response),
        (''sources'',
         JArr (map (\<lambda>q. JObj [(''uri'', JStr (''https://www.google.com/search?q=''
                                    @ concat (map encode_unit q))),
                               (''title'', JStr q)]) [''BTC price'', ''ETH news'']))]\<rparr>"
    by blast
  with queries absent ungrounded show ?thesis
    by (simp add: response_text plain_response_def encode_unit_def unreserved_def percent_def
        hex_digit_def)
qed

lemma chat_status:
  "truthy (get_prop body ''prompt'') \<Longrightarrow>
     status (chat_handler rt ai body) = 200 \<or> status (chat_handler rt ai body) = 500"
  by (simp add: chat_handler_def destructure_def status_caught status_reply Let_def
      split: sum.splits)

text \<open>
  Claim C10 says that a chat request with a truthy prompt and a file object always
  reaches the provider, also when \<^verbatim>\<open>base64Data\<close> or \<^verbatim>\<open>mimeType\<close> is absent. The log line
  \<^verbatim>\<open>`Processing file type: ${file.mimeType}`\<close> converts \<^verbatim>\<open>file.mimeType\<close> to a string
  before any part is built: with the file \<^verbatim>\<open>{"mimeType": {"toString": 1}}\<close>, which has no
  \<^verbatim>\<open>base64Data\<close>, the conversion throws, the reply is 500 and no call is made.
\<close>

theorem chat_file_counterexample:
  "truthy (get_prop odd_file_request ''prompt'')
   \<and> get_prop odd_file_request ''file'' =
       JObj [(''mimeType'', JObj [(''toString'', JNum (Finite 1))])]
   \<and> get_prop (get_prop odd_file_request ''file'') ''base64Data'' = JUndefined
   \<and> calls (chat_handler node (answering plain_response) odd_file_request) = []
   \<and> status (chat_handler node (answering plain_response) odd_file_request) = 500"
  by (simp add: odd_file_request_def chat_handler_def destructure_def chat_parts_def
      caught_def reply_def)

text \<open>
  Claim C10, amended. A chat request with a truthy prompt and a truthy file is never
  answered 400, and nothing checks the file's subfields: whenever the log line can
  convert \<^verbatim>\<open>file.mimeType\<close> to a string, as it can when the subfield is absent, the one
  call to the provider is made, and the inline-data part of its request, the first of
  the \<^verbatim>\<open>parts\<close> of its content entry, holds \<^verbatim>\<open>file.base64Data\<close> and \<^verbatim>\<open>file.mimeType\<close> as
  read, undefined when absent.
\<close>

theorem chat_file_forwarded:
  assumes "\<not> nullish body" and "truthy (get_prop body ''prompt'')"
    and "truthy (get_prop body ''file'')"
  shows "status (chat_handler rt ai body) \<noteq> 400
       \<and> (to_string rt (get_prop (get_prop body ''file'') ''mimeType'') = Inr logged \<longrightarrow>
            calls (chat_handler rt ai body) =
              [GenerateContent
                 (JObj [(''model'', JStr ''gemini-2.5-flash''),
                        (''contents'',
                         JArr [JObj [(''role'', JStr ''user''),
                           (''parts'',
                            JArr [JObj [(''inlineData'',
                                    JObj [(''data'',
                                           get_prop (get_prop body ''file'') ''base64Data''),
                                          (''mimeType'',
                                           get_prop (get_prop body ''file'') ''mimeType'')])],
                                  JObj [(''text'', get_prop body ''prompt'')]])]]),
                        (''config'',
                         JObj [(''tools'', JArr [JObj [(''googleSearch'', JObj [])]])])])])
       \<and> (get_prop (get_prop body ''file'') ''mimeType'' = JUndefined \<longrightarrow>
            calls (chat_handler rt ai body) =
              [GenerateContent
                 (JObj [(''model'', JStr ''gemini-2.5-flash''),
                        (''contents'',
                         JArr [JObj [(''role'', JStr ''user''),
                           (''parts'',
                            JArr [JObj [(''inlineData'',
                                    JObj [(''data'',
                                           get_prop (get_prop body ''file'') ''base64Data''),
                                          (''mimeType'', JUndefined)])],
                                  JObj [(''text'', get_prop body ''prompt'')]])]]),
                        (''config'',
                         JObj [(''tools'', JArr [JObj [(''googleSearch'', JObj [])]])])])])"
proof (intro conjI impI)
  from chat_status [OF assms(2), of rt ai] show "status (chat_handler rt ai body) \<noteq> 400"
    by auto
next
  assume "to_string rt (get_prop (get_prop body ''file'') ''mimeType'') = Inr logged"
  with assms(3) have "chat_parts rt (get_prop body ''prompt'') (get_prop body ''file'') =
      Inr [inline_part (get_prop body ''file''), text_part (get_prop body ''prompt'')]"
    by (simp add: chat_parts_def)
  from chat_calls_after_parts [OF assms(1,2) this]
  show "calls (chat_handler rt ai body) =
      [GenerateContent
         (JObj [(''model'', JStr ''gemini-2.5-flash''),
                (''contents'',
                 JArr [JObj [(''role'', JStr ''user''),
                   (''parts'',
                    JArr [JObj [(''inlineData'',
                            JObj [(''data'',
                                   get_prop (get_prop body ''file'') ''base64Data''),
                                  (''mimeType'',
                                   get_prop (get_prop body ''file'') ''mimeType'')])],
                          JObj [(''text'', get_prop body ''prompt'')]])]]),
                (''config'',
                 JObj [(''tools'', JArr [JObj [(''googleSearch'', JObj [])]])])])]"
    by (simp add: inline_part_def text_part_def chat_request_def google_search_tools_def)
next
  assume absent: "get_prop (get_prop body ''file'') ''mimeType'' = JUndefined"
  with assms(3) have "chat_parts rt (get_prop body ''prompt'') (get_prop body ''file'') =
      Inr [inline_part (get_prop body ''file''), text_part (get_prop body ''prompt'')]"
    by (simp add: chat_parts_def)
  from chat_calls_after_parts [OF assms(1,2) this] absent
  show "calls (chat_handler rt ai body) =
      [GenerateContent
         (JObj [(''model'', JStr ''gemini-2.5-flash''),
                (''contents'',
                 JArr [JObj [(''role'', JStr ''user''),
                   (''parts'',
                    JArr [JObj [(''inlineData'',
                            JObj [(''data'',
                                   get_prop (get_prop body ''file'') ''base64Data''),
                                  (''mimeType'', JUndefined)])],
                          JObj [(''text'', get_prop body ''prompt'')]])]]),
                (''config'',
                 JObj [(''tools'', JArr [JObj [(''googleSearch'', JObj [])]])])])]"
    by (simp add: inline_part_def text_part_def chat_request_def google_search_tools_def)
qed

text \<open>
  A file with neither subfield: both go out undefined in the inline-data part of the
  one request, and the reply is not 400.
\<close>

theorem chat_file_forwarded_witness:
  "truthy (get_prop (JObj [(''prompt'', JStr ''What is this chart?''), (''file'', JObj [])]) ''file'')
   \<and> get_prop (get_prop (JObj [(''prompt'', JStr ''What is this chart?''), (''file'', JObj [])])
        ''file'') ''mimeType'' = JUndefined
   \<and> status (chat_handler node (answering plain_response)
        (JObj [(''prompt'', JStr ''What is this chart?''), (''file'', JObj [])])) \<noteq> 400
   \<and> calls (chat_handler node (answering plain_response)
        (JObj [(''prompt'', JStr ''What is this chart?''), (''file'', JObj [])])) =
      [GenerateContent
         (JObj [(''model'', JStr ''gemini-2.5-flash''),
                (''contents'',
                 JArr [JObj [(''role'', JStr ''user''),
                   (''parts'',
                    JArr [JObj [(''inlineData'',
                            JObj [(''data'', JUndefined), (''mimeType'', JUndefined)])],
                          JObj [(''text'', JStr ''What is this chart?'')]])]]),
                (''config'',
                 JObj [(''tools'', JArr [JObj [(''googleSearch'', JObj [])]])])])]"
proof -
  have body: "\<not> nullish (JObj [(''prompt'', JStr ''What is this chart?''), (''file'', JObj [])])"
    "truthy (get_prop (JObj [(''prompt'', JStr ''What is this chart?''), (''file'', JObj [])])
       ''prompt'')"
    "truthy (get_prop (JObj [(''prompt'', JStr ''What is this chart?''), (''file'', JObj [])])
       ''file'')"
    by simp_all
  from chat_file_forwarded [OF body, of node "answering plain_response" "''undefined''"] body(3)
  show ?thesis
    by simp
qed

section \<open>The image route\<close>

lemma image_after_fetch:
  assumes "\<not> nullish body" and "truthy (get_prop body ''prompt'')"
    and "fetch net (image_url API_KEY) (image_payload (get_prop body ''prompt'')) = Inr response"
  shows "generate_image_handler API_KEY rt net body =
     (if \<not> ok response then
        (case body_text response of
           Inl e \<Rightarrow>
             caught [Fetch (image_url API_KEY) (image_payload (get_prop body ''prompt''))]
               image_error e
         | Inr errorText \<Rightarrow>
             caught [Fetch (image_url API_KEY) (image_payload (get_prop body ''prompt''))]
               image_error (Error (''Imagen API Failed: '' @ errorText)))
      else
        (case response_json rt response of
           Inl e \<Rightarrow>
             caught [Fetch (image_url API_KEY) (image_payload (get_prop body ''prompt''))]
               image_error e
         | Inr data \<Rightarrow>
             (case imageBytes data of
                Inl e \<Rightarrow>
                  caught [Fetch (image_url API_KEY) (image_payload (get_prop body ''prompt''))]
                    image_error e
              | Inr base64Image \<Rightarrow>
                  reply [Fetch (image_url API_KEY) (image_payload (get_prop body ''prompt''))] 200
                    (JObj [(''base64Image'', base64Image)]))))"
  using assms by (simp add: generate_image_handler_def destructure_present Let_def)

lemma imageBytes_none:
  "get_prop data ''generatedImages'' = JUndefined \<or> get_prop data ''generatedImages'' = JArr [] \<Longrightarrow>
     \<exists>m. imageBytes data = Inl (TypeError m)"
  by (auto simp: imageBytes_def read_prop_def read_index0_def cannot_read_def)

text \<open>
  Claim C7. An image request with a truthy prompt whose provider reply has a non-success
  status gets the reply 500, and \<^verbatim>\<open>details\<close> is \<^verbatim>\<open>Imagen API Failed: \<close> followed by the
  text of the provider's reply body, unchanged.
\<close>

theorem image_provider_status:
  assumes "\<not> nullish body" and "truthy (get_prop body ''prompt'')"
    and "fetch net (image_url API_KEY) (image_payload (get_prop body ''prompt'')) = Inr response"
    and "\<not> ok response" and "body_text response = Inr errorText"
  shows "generate_image_handler API_KEY rt net body =
     \<lparr>calls = [Fetch (image_url API_KEY) (image_payload (get_prop body ''prompt''))],
      status = 500,
      json = JObj [(''error'', JStr ''An internal server error occurred during image generation.''),
                   (''details'', JStr (''Imagen API Failed: '' @ errorText))]\<rparr>"
  using image_after_fetch [OF assms(1-3)] assms(4,5)
  by (simp add: caught_def reply_def image_error_def)

theorem image_provider_status_witness:
  "\<not> ok \<lparr>ok = False, body_text = Inr forbidden_text\<rparr>
   \<and> generate_image_handler ''k'' node (fetching \<lparr>ok = False, body_text = Inr forbidden_text\<rparr>)
       (JObj [(''prompt'', JStr ''a bull'')]) =
     \<lparr>calls = [Fetch (image_url ''k'') (image_payload (JStr ''a bull''))],
      status = 500,
      json = JObj [(''error'', JStr ''An internal server error occurred during image generation.''),
                   (''details'', JStr (''Imagen API Failed: '' @ forbidden_text))]\<rparr>"
  using image_provider_status [of "JObj [(''prompt'', JStr ''a bull'')]"
      "fetching \<lparr>ok = False, body_text = Inr forbidden_text\<rparr>" "''k''"
      "\<lparr>ok = False, body_text = Inr forbidden_text\<rparr>" forbidden_text node]
  by (simp add: fetching_def)

text \<open>
  Claim C9. An image request with a truthy prompt whose provider reply succeeds with a
  \<^verbatim>\<open>generatedImages\<close> that is absent or the empty array gets the reply 500 with the body
  \<^verbatim>\<open>{error, details}\<close>: the unguarded read \<^verbatim>\<open>data.generatedImages[0].image\<close> throws a
  TypeError inside the \<^verbatim>\<open>try\<close> block, and the \<^verbatim>\<open>catch\<close> block answers.
\<close>

theorem image_without_images:
  assumes "\<not> nullish body" and "truthy (get_prop body ''prompt'')"
    and "fetch net (image_url API_KEY) (image_payload (get_prop body ''prompt'')) = Inr response"
    and "ok response" and "response_json rt response = Inr data"
    and "get_prop data ''generatedImages'' = JUndefined \<or> get_prop data ''generatedImages'' = JArr []"
  shows "\<exists>details. generate_image_handler API_KEY rt net body =
     \<lparr>calls = [Fetch (image_url API_KEY) (image_payload (get_prop body ''prompt''))],
      status = 500,
      json = JObj [(''error'', JStr ''An internal server error occurred during image generation.''),
                   (''details'', JStr details)]\<rparr>"
proof -
  from imageBytes_none [OF assms(6)] obtain m where "imageBytes data = Inl (TypeError m)" ..
  with image_after_fetch [OF assms(1-3)] assms(4,5)
  have "generate_image_handler API_KEY rt net body =
     \<lparr>calls = [Fetch (image_url API_KEY) (image_payload (get_prop body ''prompt''))],
      status = 500,
      json = JObj [(''error'', JStr ''An internal server error occurred during image generation.''),
                   (''details'', JStr m)]\<rparr>"
    by (simp add: caught_def reply_def image_error_def)
  then show ?thesis ..
qed

theorem image_without_images_witness:
  "response_json node \<lparr>ok = True, body_text = Inr no_images_text\<rparr> = Inr no_images_value
   \<and> get_prop no_images_value ''generatedImages'' = JArr []
   \<and> (\<exists>details.
        generate_image_handler ''k'' node (fetching \<lparr>ok = True, body_text = Inr no_images_text\<rparr>)
          (JObj [(''prompt'', JStr ''a bull'')]) =
        \<lparr>calls = [Fetch (image_url ''k'') (image_payload (JStr ''a bull''))],
         status = 500,
         json = JObj [(''error'', JStr ''An internal server error occurred during image generation.''),
                      (''details'', JStr details)]\<rparr>)"
proof -
  have parsed: "response_json node \<lparr>ok = True, body_text = Inr no_images_text\<rparr> = Inr no_images_value"
    by (simp add: response_json_def sample_run)
  have empty: "get_prop no_images_value ''generatedImages'' = JArr []"
    by (simp add: no_images_value_def)
  from image_without_images [of "JObj [(''prompt'', JStr ''a bull'')]"
      "fetching \<lparr>ok = True, body_text = Inr no_images_text\<rparr>" "''k''"
      "\<lparr>ok = True, body_text = Inr no_images_text\<rparr>" node no_images_value] parsed empty
  show ?thesis
    by (simp add: fetching_def)
qed

section \<open>The speech route\<close>

lemma tts_after_json:
  assumes "\<not> nullish body" and "truthy (get_prop body ''text'')"
    and "fetch net (tts_url API_KEY) (tts_payload (get_prop body ''text'')) = Inr response"
    and "ok response" and "response_json rt response = Inr result"
  shows "tts_handler API_KEY rt net body =
     (if missing_audio (first_part result) then
        caught [Fetch (tts_url API_KEY) (tts_payload (get_prop body ''text''))] tts_error
          (Error ''TTS response missing inline audio data.'')
      else
        reply [Fetch (tts_url API_KEY) (tts_payload (get_prop body ''text''))] 200
          (JObj [(''audioData'', get_prop (get_prop (first_part result) ''inlineData'') ''data''),
                 (''mimeType'', get_prop (get_prop (first_part result) ''inlineData'') ''mimeType'')]))"
  using assms by (simp add: tts_handler_def destructure_present Let_def)

text \<open>The part looked at is the first part of the first candidate, whatever follows.\<close>

lemma first_part_first:
  "first_part (JObj [(''candidates'',
     JArr (JObj [(''content'', JObj [(''parts'', JArr (part # later_parts))])] # later))]) = part"
  by (simp add: first_part_def opt_prop_def opt_index0_def)

text \<open>
  Claim C8. A speech request with a truthy text whose provider reply succeeds with a JSON
  value \<open>result\<close>: when the first part of the first candidate, its \<^verbatim>\<open>inlineData\<close> or the
  \<^verbatim>\<open>data\<close> of that payload is lacking (it reads as undefined, or is otherwise falsy), the
  reply is 500 and \<^verbatim>\<open>details\<close> is \<^verbatim>\<open>TTS response missing inline audio data.\<close>; otherwise
  the reply is 200 with \<^verbatim>\<open>audioData\<close> and \<^verbatim>\<open>mimeType\<close> read from that payload.
\<close>

theorem tts_inline_audio:
  assumes "\<not> nullish body" and "truthy (get_prop body ''text'')"
    and "fetch net (tts_url API_KEY) (tts_payload (get_prop body ''text'')) = Inr response"
    and "ok response" and "response_json rt response = Inr result"
  shows "(\<not> truthy (first_part result)
          \<or> \<not> truthy (get_prop (first_part result) ''inlineData'')
          \<or> \<not> truthy (get_prop (get_prop (first_part result) ''inlineData'') ''data'') \<longrightarrow>
            tts_handler API_KEY rt net body =
              \<lparr>calls = [Fetch (tts_url API_KEY) (tts_payload (get_prop body ''text''))],
               status = 500,
               json = JObj [(''error'',
                             JStr ''An internal server error occurred during Text-to-Speech generation.''),
                            (''details'', JStr ''TTS response missing inline audio data.'')]\<rparr>)
       \<and> (truthy (first_part result)
            \<and> truthy (get_prop (first_part result) ''inlineData'')
            \<and> truthy (get_prop (get_prop (first_part result) ''inlineData'') ''data'') \<longrightarrow>
            tts_handler API_KEY rt net body =
              \<lparr>calls = [Fetch (tts_url API_KEY) (tts_payload (get_prop body ''text''))],
               status = 200,
               json = JObj [(''audioData'',
                             get_prop (get_prop (first_part result) ''inlineData'') ''data''),
                            (''mimeType'',
                             get_prop (get_prop (first_part result) ''inlineData'') ''mimeType'')]\<rparr>)"
  using tts_after_json [OF assms]
  by (auto simp: missing_audio_def caught_def reply_def tts_error_def)

text \<open>A reply that carries audio, and one whose first part is text only.\<close>

theorem tts_inline_audio_witness:
  "first_part audio_value =
     JObj [(''inlineData'', JObj [(''data'', JStr ''UklGRg==''), (''mimeType'', JStr ''audio/L16'')])]
   \<and> tts_handler ''k'' node (fetching \<lparr>ok = True, body_text = Inr audio_text\<rparr>)
       (JObj [(''text'', JStr ''Bitcoin is up.'')]) =
     \<lparr>calls = [Fetch (tts_url ''k'') (tts_payload (JStr ''Bitcoin is up.''))],
      status = 200,
      json = JObj [(''audioData'', JStr ''UklGRg==''), (''mimeType'', JStr ''audio/L16'')]\<rparr>
   \<and> get_prop (first_part silent_value) ''inlineData'' = JUndefined
   \<and> tts_handler ''k'' node (fetching \<lparr>ok = True, body_text = Inr silent_text\<rparr>)
       (JObj [(''text'', JStr ''Bitcoin is up.'')]) =
     \<lparr>calls = [Fetch (tts_url ''k'') (tts_payload (JStr ''Bitcoin is up.''))],
      status = 500,
      json = JObj [(''error'',
                    JStr ''An internal server error occurred during Text-to-Speech generation.''),
                   (''details'', JStr ''TTS response missing inline audio data.'')]\<rparr>"
proof -
  have body: "\<not> nullish (JObj [(''text'', JStr ''Bitcoin is up.'')])"
    "truthy (get_prop (JObj [(''text'', JStr ''Bitcoin is up.'')]) ''text'')"
    by simp_all
  have audio: "response_json node \<lparr>ok = True, body_text = Inr audio_text\<rparr> = Inr audio_value"
    and silent: "response_json node \<lparr>ok = True, body_text = Inr silent_text\<rparr> = Inr silent_value"
    by (simp_all add: response_json_def sample_run)
  have first_audio: "first_part audio_value =
     JObj [(''inlineData'', JObj [(''data'', JStr ''UklGRg==''), (''mimeType'', JStr ''audio/L16'')])]"
    and first_silent: "first_part silent_value = JObj [(''text'', JStr ''no audio'')]"
    by (simp_all add: first_part_def audio_value_def silent_value_def opt_prop_def opt_index0_def)
  have fetched: "fetch (fetching r) url payload = Inr r" for r url payload
    by (simp add: fetching_def)
  note with_audio = tts_inline_audio [OF body fetched _ audio, of "''k''", THEN conjunct2]
  note without_audio = tts_inline_audio [OF body fetched _ silent, of "''k''", THEN conjunct1]
  from with_audio have "tts_handler ''k'' node (fetching \<lparr>ok = True, body_text = Inr audio_text\<rparr>)
       (JObj [(''text'', JStr ''Bitcoin is up.'')]) =
     \<lparr>calls = [Fetch (tts_url ''k'') (tts_payload (JStr ''Bitcoin is up.''))],
      status = 200,
      json = JObj [(''audioData'', JStr ''UklGRg==''), (''mimeType'', JStr ''audio/L16'')]\<rparr>"
    by (simp add: first_audio)
  moreover from without_audio
  have "tts_handler ''k'' node (fetching \<lparr>ok = True, body_text = Inr silent_text\<rparr>)
       (JObj [(''text'', JStr ''Bitcoin is up.'')]) =
     \<lparr>calls = [Fetch (tts_url ''k'') (tts_payload (JStr ''Bitcoin is up.''))],
      status = 500,
      json = JObj [(''error'',
                    JStr ''An internal server error occurred during Text-to-Speech generation.''),
                   (''details'', JStr ''TTS response missing inline audio data.'')]\<rparr>"
    by (simp add: first_silent)
  ultimately show ?thesis
    by (simp add: first_audio first_silent)
qed

end
